theory Spec2Isabelle
  imports Complex_Main
begin

section \<open>Tensors\<close>

text \<open>
  The notebook works on TensorFlow tensors. A tensor is modelled by its element type
  tag, its shape and its elements, read through a multi-index (one index per axis).
  Only the elements at indices inside the shape belong to the tensor. Elements are
  rationals: every pixel of an 8-bit image is one, and the arithmetic of the
  operations below (products and sums with dyadic weights) is written exactly,
  without the rounding of 32-bit floats.
\<close>

datatype dtype = UInt8 | Float32 | Int64

record 'a tensor =
  dtype :: dtype
  shape :: "nat list"
  elem :: "nat list \<Rightarrow> 'a"

datatype error = KeyError | ValueError | InvalidArgumentError

subsection \<open>\<^verbatim>\<open>tf.image.resize\<close> (library operation)\<close>

text \<open>
  \<^verbatim>\<open>tf.image.resize(images, size)\<close> with its default method: bilinear interpolation with
  half-pixel centres and no antialiasing. It takes a tensor of rank 3 (height, width,
  channels) or rank 4 (batch first), of any numeric element type, and always returns a
  \<^verbatim>\<open>float32\<close> tensor; it rejects an image with an empty dimension. The interpolation is
  the one of the library's kernel: output position \<open>i\<close> reads the input at
  \<open>(i + 1/2) * in_size / out_size - 1/2\<close>, between the pixels \<open>lower\<close> and \<open>upper\<close>.
\<close>

definition half_pixel_scaler :: "nat \<Rightarrow> rat \<Rightarrow> rat" where
  "half_pixel_scaler x scale = (of_nat x + 1 / 2) * scale - 1 / 2"

record cached_interpolation =
  lower :: nat
  upper :: nat
  lerp :: rat

definition compute_interpolation_weights :: "nat \<Rightarrow> nat \<Rightarrow> nat \<Rightarrow> cached_interpolation" where
  "compute_interpolation_weights out_size in_size i =
     (let scale = of_nat in_size / of_nat out_size;
          inp = half_pixel_scaler i scale;
          in_f = \<lfloor>inp\<rfloor>
      in \<lparr>lower = nat (max in_f 0),
          upper = nat (min \<lceil>inp\<rceil> (int in_size - 1)),
          lerp = inp - of_int in_f\<rparr>)"

definition compute_lerp :: "rat \<Rightarrow> rat \<Rightarrow> rat \<Rightarrow> rat \<Rightarrow> rat \<Rightarrow> rat \<Rightarrow> rat" where
  "compute_lerp top_left top_right bottom_left bottom_right x_lerp y_lerp =
     (let top = top_left + (top_right - top_left) * x_lerp;
          bottom = bottom_left + (bottom_right - bottom_left) * x_lerp
      in top + (bottom - top) * y_lerp)"

definition resize_bilinear ::
  "(nat \<Rightarrow> nat \<Rightarrow> rat) \<Rightarrow> nat \<Rightarrow> nat \<Rightarrow> nat \<Rightarrow> nat \<Rightarrow> nat \<Rightarrow> nat \<Rightarrow> rat" where
  "resize_bilinear plane in_h in_w out_h out_w y x =
     (let ys = compute_interpolation_weights out_h in_h y;
          xs = compute_interpolation_weights out_w in_w x
      in compute_lerp (plane (lower ys) (lower xs)) (plane (lower ys) (upper xs))
           (plane (upper ys) (lower xs)) (plane (upper ys) (upper xs))
           (lerp xs) (lerp ys))"

definition resize :: "rat tensor \<Rightarrow> nat \<times> nat \<Rightarrow> error + rat tensor" where
  "resize images target =
     (case target of (out_h, out_w) \<Rightarrow>
       (case shape images of
          [h, w, c] \<Rightarrow>
            if h = 0 \<or> w = 0 \<or> c = 0 \<or> out_h = 0 \<or> out_w = 0 then Inl InvalidArgumentError
            else Inr \<lparr>dtype = Float32, shape = [out_h, out_w, c],
                      elem = (\<lambda>idx. resize_bilinear (\<lambda>y x. elem images [y, x, idx ! 2])
                                       h w out_h out_w (idx ! 0) (idx ! 1))\<rparr>
        | [n, h, w, c] \<Rightarrow>
            if h = 0 \<or> w = 0 \<or> c = 0 \<or> out_h = 0 \<or> out_w = 0 then Inl InvalidArgumentError
            else Inr \<lparr>dtype = Float32, shape = [n, out_h, out_w, c],
                      elem = (\<lambda>idx. resize_bilinear (\<lambda>y x. elem images [idx ! 0, y, x, idx ! 3])
                                       h w out_h out_w (idx ! 1) (idx ! 2))\<rparr>
        | _ \<Rightarrow> Inl ValueError))"

subsection \<open>\<^verbatim>\<open>tf.image.convert_image_dtype\<close> (library operation)\<close>

text \<open>
  \<^verbatim>\<open>tf.image.convert_image_dtype(image, dtype)\<close> returns the image as it is when it already
  has the requested element type. Converting an integer image to a float type casts and
  then multiplies by \<open>1 / max\<close>, the largest value of the integer type. The program only
  ever asks for \<^verbatim>\<open>float32\<close>; the conversions to integer types are not modelled.
\<close>

fun dtype_max :: "dtype \<Rightarrow> rat" where
  "dtype_max UInt8 = 255"
| "dtype_max Int64 = 9223372036854775807"
| "dtype_max Float32 = 340282346638528859811704183484516925440"

definition convert_image_dtype_float32 :: "rat tensor \<Rightarrow> rat tensor" where
  "convert_image_dtype_float32 img =
     (if dtype img = Float32 then img
      else img\<lparr>dtype := Float32,
               elem := (\<lambda>idx. elem img idx * (1 / dtype_max (dtype img)))\<rparr>)"

subsection \<open>Subtracting a scalar, mirroring\<close>

text \<open>\<^verbatim>\<open>t -= k\<close> on a float tensor subtracts \<open>k\<close> from every element.\<close>

definition tensor_sub :: "rat tensor \<Rightarrow> rat \<Rightarrow> rat tensor" where
  "tensor_sub t k = t\<lparr>elem := (\<lambda>idx. elem t idx - k)\<rparr>"

text \<open>
  \<^verbatim>\<open>tf.image.flip_left_right\<close> reverses the width axis of a rank-3 image (axis 1) or
  of a rank-4 batch of images (axis 2). It rejects any other rank, and an image whose
  height, width or number of channels is zero.
\<close>

definition flip_left_right :: "'a tensor \<Rightarrow> error + 'a tensor" where
  "flip_left_right img =
     (case shape img of
        [h, w, c] \<Rightarrow>
          if h = 0 \<or> w = 0 \<or> c = 0 then Inl ValueError
          else Inr (img\<lparr>elem := (\<lambda>idx. elem img (idx[1 := w - 1 - idx ! 1]))\<rparr>)
      | [n, h, w, c] \<Rightarrow>
          if h = 0 \<or> w = 0 \<or> c = 0 then Inl ValueError
          else Inr (img\<lparr>elem := (\<lambda>idx. elem img (idx[2 := w - 1 - idx ! 2]))\<rparr>)
      | _ \<Rightarrow> Inl ValueError)"

section \<open>Preprocessing\<close>

text \<open>
  A dataset record is a dictionary from feature names to tensors; looking up a missing
  key raises \<^verbatim>\<open>KeyError\<close>.
\<close>

type_synonym features = "string \<rightharpoonup> rat tensor"

definition getitem :: "features \<Rightarrow> string \<Rightarrow> error + rat tensor" where
  "getitem data key = (case data key of None \<Rightarrow> Inl KeyError | Some t \<Rightarrow> Inr t)"

text \<open>\<^verbatim>\<open>read_and_preprocess\<close> as the notebook defines it interactively.\<close>

definition read_and_preprocess :: "features \<Rightarrow> error + rat tensor \<times> rat tensor" where
  "read_and_preprocess data =
     (case getitem data ''image'' of Inl e \<Rightarrow> Inl e | Inr raw_image \<Rightarrow>
     (case resize raw_image (128, 128) of Inl e \<Rightarrow> Inl e | Inr input_image \<Rightarrow>
     (case getitem data ''segmentation_mask'' of Inl e \<Rightarrow> Inl e | Inr raw_mask \<Rightarrow>
     (case resize raw_mask (128, 128) of Inl e \<Rightarrow> Inl e | Inr input_mask \<Rightarrow>
        (let input_image = convert_image_dtype_float32 input_image;
             input_mask = tensor_sub input_mask 1
         in Inr (input_image, input_mask))))))"

text \<open>\<^verbatim>\<open>read_and_preprocess\<close> as written into \<^verbatim>\<open>pets_trainer/train.py\<close>.\<close>

definition read_and_preprocess_train :: "features \<Rightarrow> error + rat tensor \<times> rat tensor" where
  "read_and_preprocess_train data =
     (case getitem data ''image'' of Inl e \<Rightarrow> Inl e | Inr raw_image \<Rightarrow>
     (case resize raw_image (128, 128) of Inl e \<Rightarrow> Inl e | Inr input_image \<Rightarrow>
     (case getitem data ''segmentation_mask'' of Inl e \<Rightarrow> Inl e | Inr raw_mask \<Rightarrow>
     (case resize raw_mask (128, 128) of Inl e \<Rightarrow> Inl e | Inr input_mask \<Rightarrow>
        (let input_image = convert_image_dtype_float32 input_image;
             input_mask = tensor_sub input_mask 1
         in Inr (input_image, input_mask))))))"

section \<open>Augmentation\<close>

text \<open>
  \<^verbatim>\<open>augment\<close> draws \<^verbatim>\<open>tf.random.uniform(())\<close>, a number of the interval \<open>[0, 1)\<close>, and
  mirrors image and mask when the draw passes the test. The draw is the argument \<open>u\<close>.
  The notebook tests \<^verbatim>\<open>u < AUGMENT_PROB\<close>, the training script \<^verbatim>\<open>u > 0.5\<close>.
\<close>

definition AUGMENT_PROB :: rat where
  "AUGMENT_PROB = 1 / 2"

text \<open>Two calls that may raise, one after the other: the first error is the result.\<close>

definition both :: "error + 'a \<Rightarrow> error + 'b \<Rightarrow> error + 'a \<times> 'b" where
  "both r1 r2 =
     (case r1 of Inl e \<Rightarrow> Inl e
      | Inr a \<Rightarrow> (case r2 of Inl e \<Rightarrow> Inl e | Inr b \<Rightarrow> Inr (a, b)))"

definition augment :: "rat \<Rightarrow> 'a tensor \<Rightarrow> 'a tensor \<Rightarrow> error + 'a tensor \<times> 'a tensor" where
  "augment u img msk =
     (if u < AUGMENT_PROB then both (flip_left_right img) (flip_left_right msk)
      else Inr (img, msk))"

definition augment_train :: "rat \<Rightarrow> 'a tensor \<Rightarrow> 'a tensor \<Rightarrow> error + 'a tensor \<times> 'a tensor" where
  "augment_train u img msk =
     (if u > 1 / 2 then both (flip_left_right img) (flip_left_right msk)
      else Inr (img, msk))"

section \<open>Predicted masks\<close>

text \<open>
  \<^verbatim>\<open>tf.argmax(input, axis=-1)\<close> reduces the last axis to the index of its largest entry,
  the smallest such index when several entries are largest. It rejects a scalar and an
  empty last axis.
\<close>

fun argmax_upto :: "(nat \<Rightarrow> rat) \<Rightarrow> nat \<Rightarrow> nat" where
  "argmax_upto f 0 = 0"
| "argmax_upto f (Suc k) =
     (let best = argmax_upto f k in if f best < f (Suc k) then Suc k else best)"

definition argmax :: "rat tensor \<Rightarrow> error + nat tensor" where
  "argmax input =
     (if shape input = [] then Inl InvalidArgumentError
      else if last (shape input) = 0 then Inl InvalidArgumentError
      else Inr \<lparr>dtype = Int64, shape = butlast (shape input),
                elem = (\<lambda>idx. argmax_upto (\<lambda>k. elem input (idx @ [k]))
                                 (last (shape input) - 1))\<rparr>)"

text \<open>\<^verbatim>\<open>t[..., tf.newaxis]\<close> appends an axis of length one.\<close>

definition newaxis_last :: "'a tensor \<Rightarrow> 'a tensor" where
  "newaxis_last t = t\<lparr>shape := shape t @ [1], elem := (\<lambda>idx. elem t (butlast idx))\<rparr>"

text \<open>\<^verbatim>\<open>t[0]\<close> selects the first entry of the first axis, which must not be empty.\<close>

definition first_item :: "'a tensor \<Rightarrow> error + 'a tensor" where
  "first_item t =
     (case shape t of
        [] \<Rightarrow> Inl InvalidArgumentError
      | n # rest \<Rightarrow>
          if n = 0 then Inl InvalidArgumentError
          else Inr (t\<lparr>shape := rest, elem := (\<lambda>idx. elem t (0 # idx))\<rparr>))"

definition create_mask :: "rat tensor \<Rightarrow> error + nat tensor" where
  "create_mask pred_mask =
     (case argmax pred_mask of Inl e \<Rightarrow> Inl e
      | Inr pred_mask \<Rightarrow> (let pred_mask = newaxis_last pred_mask in first_item pred_mask))"

section \<open>The network\<close>

text \<open>
  Keras builds the network as a graph of layers over symbolic tensors. A symbolic
  tensor is its shape without the batch axis: height, width, channels.
\<close>

type_synonym hwc = "nat \<times> nat \<times> nat"

datatype padding = Same | Valid

subsection \<open>Output sizes of convolutions (library)\<close>

definition conv_output_length :: "nat \<Rightarrow> nat \<Rightarrow> padding \<Rightarrow> nat \<Rightarrow> nat" where
  "conv_output_length input_length filter_size pad stride =
     (let output_length =
            (case pad of Same \<Rightarrow> input_length | Valid \<Rightarrow> input_length - filter_size + 1)
      in (output_length + stride - 1) div stride)"

definition deconv_output_length :: "nat \<Rightarrow> nat \<Rightarrow> padding \<Rightarrow> nat \<Rightarrow> nat" where
  "deconv_output_length dim_size kernel_size pad stride =
     (case pad of Same \<Rightarrow> dim_size * stride
      | Valid \<Rightarrow> dim_size * stride + max (kernel_size - stride) 0)"

definition conv2d_shape :: "nat \<Rightarrow> nat \<Rightarrow> nat \<Rightarrow> padding \<Rightarrow> hwc \<Rightarrow> hwc" where
  "conv2d_shape filters kernel_size strides pad x =
     (case x of (h, w, c) \<Rightarrow>
        (conv_output_length h kernel_size pad strides,
         conv_output_length w kernel_size pad strides, filters))"

definition depthwise_conv2d_shape :: "nat \<Rightarrow> nat \<Rightarrow> padding \<Rightarrow> hwc \<Rightarrow> hwc" where
  "depthwise_conv2d_shape kernel_size strides pad x =
     (case x of (h, w, c) \<Rightarrow>
        (conv_output_length h kernel_size pad strides,
         conv_output_length w kernel_size pad strides, c))"

definition correct_pad :: "hwc \<Rightarrow> nat \<Rightarrow> (nat \<times> nat) \<times> (nat \<times> nat)" where
  "correct_pad inputs kernel_size =
     (case inputs of (h, w, c) \<Rightarrow>
        (let adjust = (1 - h mod 2, 1 - w mod 2);
             correct = (kernel_size div 2, kernel_size div 2)
         in ((fst correct - fst adjust, fst correct), (snd correct - snd adjust, snd correct))))"

definition zero_padding2d_shape :: "(nat \<times> nat) \<times> (nat \<times> nat) \<Rightarrow> hwc \<Rightarrow> hwc" where
  "zero_padding2d_shape pad x =
     (case x of (h, w, c) \<Rightarrow>
        (h + fst (fst pad) + snd (fst pad), w + fst (snd pad) + snd (snd pad), c))"

definition make_divisible :: "nat \<Rightarrow> nat \<Rightarrow> nat" where
  "make_divisible v divisor =
     (let new_v = max divisor ((2 * v + divisor) div 2 div divisor * divisor)
      in if 10 * new_v < 9 * v then new_v + divisor else new_v)"

text \<open>Python's \<^verbatim>\<open>str\<close> of a natural number, for the layer names built with \<^verbatim>\<open>format\<close>.\<close>

function str_nat :: "nat \<Rightarrow> string" where
  "str_nat n = (if n < 10 then [''0123456789'' ! n]
                else str_nat (n div 10) @ [''0123456789'' ! (n mod 10)])"
  by pat_completeness auto
termination
  by (relation "measure id") auto

declare str_nat.simps [simp del]

subsection \<open>The pretrained MobileNetV2 (library)\<close>

text \<open>
  \<^verbatim>\<open>tf.keras.applications.MobileNetV2(input_shape, include_top=False)\<close>, with the default
  width multiplier 1 and the ImageNet weights, is modelled by its table of layers: the
  name of each layer and the shape of its output, in the order in which the library
  creates them. The network is a strided convolution followed by seventeen inverted
  residual blocks and a last pointwise convolution. The ImageNet weights need three
  input channels, and the library refuses inputs smaller than 32 by 32.
\<close>

type_synonym layer_table = "(string \<times> hwc) list"

definition inverted_res_block ::
  "hwc \<Rightarrow> nat \<Rightarrow> nat \<Rightarrow> nat \<Rightarrow> nat \<Rightarrow> layer_table \<times> hwc" where
  "inverted_res_block inputs expansion stride filters block_id =
     (let in_channels = snd (snd inputs);
          pointwise_filters = make_divisible filters 8;
          prefix = (if block_id \<noteq> 0 then ''block_'' @ str_nat block_id @ ''_''
                    else ''expanded_conv_'');
          expanded = conv2d_shape (expansion * in_channels) 1 1 Same inputs;
          expand_layers = (if block_id \<noteq> 0
                           then [(prefix @ ''expand'', expanded),
                                 (prefix @ ''expand_BN'', expanded),
                                 (prefix @ ''expand_relu'', expanded)]
                           else []);
          x = (if block_id \<noteq> 0 then expanded else inputs);
          padded = zero_padding2d_shape (correct_pad x 3) x;
          pad_layers = (if stride = 2 then [(prefix @ ''pad'', padded)] else []);
          x = (if stride = 2 then padded else x);
          x = depthwise_conv2d_shape 3 stride (if stride = 1 then Same else Valid) x;
          depthwise_layers = [(prefix @ ''depthwise'', x),
                              (prefix @ ''depthwise_BN'', x),
                              (prefix @ ''depthwise_relu'', x)];
          x = conv2d_shape pointwise_filters 1 1 Same x;
          project_layers = [(prefix @ ''project'', x), (prefix @ ''project_BN'', x)];
          add_layers = (if in_channels = pointwise_filters \<and> stride = 1
                        then [(prefix @ ''add'', x)] else [])
      in (expand_layers @ pad_layers @ depthwise_layers @ project_layers @ add_layers, x))"

text \<open>The blocks of the network: filters, stride, expansion factor and block number.\<close>

definition mobilenet_v2_blocks :: "(nat \<times> nat \<times> nat \<times> nat) list" where
  "mobilenet_v2_blocks =
     [(16, 1, 1, 0),
      (24, 2, 6, 1), (24, 1, 6, 2),
      (32, 2, 6, 3), (32, 1, 6, 4), (32, 1, 6, 5),
      (64, 2, 6, 6), (64, 1, 6, 7), (64, 1, 6, 8), (64, 1, 6, 9),
      (96, 1, 6, 10), (96, 1, 6, 11), (96, 1, 6, 12),
      (160, 2, 6, 13), (160, 1, 6, 14), (160, 1, 6, 15),
      (320, 1, 6, 16)]"

text \<open>One more block on the network built so far: its layers join the table.\<close>

definition add_block :: "nat \<times> nat \<times> nat \<times> nat \<Rightarrow> layer_table \<times> hwc \<Rightarrow> layer_table \<times> hwc" where
  "add_block block net =
     (case block of (filters, stride, expansion, block_id) \<Rightarrow>
      case inverted_res_block (snd net) expansion stride filters block_id of
        (created, y) \<Rightarrow> (fst net @ created, y))"

text \<open>The first convolution, and the last one after the blocks.\<close>

definition stem :: "hwc \<Rightarrow> layer_table \<times> hwc" where
  "stem img_input =
     (let first_block_filters = make_divisible 32 8;
          x = conv2d_shape first_block_filters 3 2 Same img_input
      in ([(''input_1'', img_input), (''Conv1'', x), (''bn_Conv1'', x), (''Conv1_relu'', x)], x))"

definition head :: "layer_table \<times> hwc \<Rightarrow> layer_table" where
  "head net =
     (let x = conv2d_shape 1280 1 1 Valid (snd net)
      in fst net @ [(''Conv_1'', x), (''Conv_1_bn'', x), (''out_relu'', x)])"

definition MobileNetV2 :: "hwc \<Rightarrow> error + layer_table" where
  "MobileNetV2 input_shape =
     (case input_shape of (rows, cols, channels) \<Rightarrow>
        if channels \<noteq> 3 then Inl ValueError
        else if rows < 32 \<or> cols < 32 then Inl ValueError
        else Inr (head (fold add_block mobilenet_v2_blocks (stem input_shape))))"

text \<open>\<^verbatim>\<open>model.get_layer(name).output\<close>: a name the model does not have is a \<^verbatim>\<open>ValueError\<close>.\<close>

definition get_layer :: "layer_table \<Rightarrow> string \<Rightarrow> error + hwc" where
  "get_layer base key = (case map_of base key of None \<Rightarrow> Inl ValueError | Some out \<Rightarrow> Inr out)"

fun collect :: "(error + 'a) list \<Rightarrow> error + 'a list" where
  "collect [] = Inr []"
| "collect (Inl e # rs) = Inl e"
| "collect (Inr x # rs) = (case collect rs of Inl e \<Rightarrow> Inl e | Inr xs \<Rightarrow> Inr (x # xs))"

subsection \<open>Layers of the decoder (library)\<close>

text \<open>
  The layers the program creates, with the output shape Keras computes for each:
  a transposed convolution with padding \<^verbatim>\<open>same\<close> multiplies height and width by its
  stride and has as many channels as filters; batch normalisation and ReLU keep the
  shape; a \<^verbatim>\<open>Sequential\<close> applies its layers in order; \<^verbatim>\<open>Concatenate\<close> joins tensors of
  equal height and width along the channels and rejects any others.
\<close>

datatype layer =
    InputLayer
  | Functional
  | Conv2DTranspose nat nat nat padding
  | BatchNormalization
  | ReLU
  | Concatenate
  | Sequential "layer list"

fun compute_output_shape :: "layer \<Rightarrow> hwc \<Rightarrow> hwc" where
  "compute_output_shape (Conv2DTranspose filters kernel_size strides pad) (h, w, c) =
     (deconv_output_length h kernel_size pad strides,
      deconv_output_length w kernel_size pad strides, filters)"
| "compute_output_shape (Sequential ls) x = fold compute_output_shape ls x"
| "compute_output_shape l x = x"

definition concatenate :: "hwc list \<Rightarrow> error + hwc" where
  "concatenate xs =
     (case xs of
        [] \<Rightarrow> Inl ValueError
      | (h, w, c) # rest \<Rightarrow>
          if list_all (\<lambda>s. fst s = h \<and> fst (snd s) = w) rest
          then Inr (h, w, c + sum_list (map (\<lambda>s. snd (snd s)) rest))
          else Inl ValueError)"

text \<open>
  A layer of a built model: its name, what it is, whether training may change its
  weights, its weights, and the shapes of the tensors it was called on and returned.
\<close>

record klayer =
  name :: string
  config :: layer
  trainable :: bool
  weights :: "rat list"
  inbound :: "hwc list"
  outbound :: "hwc list"

record model =
  inputs :: hwc
  outputs :: hwc
  layers :: "klayer list"

subsection \<open>\<^verbatim>\<open>build_unet\<close> of the training script\<close>

text \<open>
  The weights a layer starts from are read from \<open>w0\<close>, by the layer's name: the ImageNet
  checkpoint for the pretrained network, the draws of the initialisers for new layers.
  A model made of a part of another is a layer itself, here of kind \<open>Functional\<close>; it is
  created trainable, and the assignment \<^verbatim>\<open>down_stack.trainable = False\<close> follows.
\<close>

definition upsample :: "nat \<Rightarrow> nat \<Rightarrow> string \<Rightarrow> string \<times> layer" where
  "upsample filters ksize block_name =
     (block_name, Sequential [Conv2DTranspose filters ksize 2 Same, BatchNormalization, ReLU])"

text \<open>
  The loop over \<^verbatim>\<open>enumerate(zip(up_stack, skips))\<close>: each round calls the upsampling
  block on \<open>x\<close> and concatenates the result with the skip tensor. The layers called so
  far are collected with the shapes they were called on.
\<close>

fun upsampling ::
  "(string \<Rightarrow> rat list) \<Rightarrow> nat \<Rightarrow> ((string \<times> layer) \<times> hwc) list \<Rightarrow> hwc \<times> klayer list
     \<Rightarrow> error + hwc \<times> klayer list" where
  "upsampling w0 idx [] acc = Inr acc"
| "upsampling w0 idx (((up_name, up), skip) # rest) (x, called) =
     (let y = compute_output_shape up x;
          concat = ''expand_'' @ str_nat idx
      in case concatenate [y, skip] of
           Inl e \<Rightarrow> Inl e
         | Inr z \<Rightarrow>
             upsampling w0 (Suc idx) rest
               (z, called @
                   [\<lparr>name = up_name, config = up, trainable = True, weights = w0 up_name,
                     inbound = [x], outbound = [y]\<rparr>,
                    \<lparr>name = concat, config = Concatenate, trainable = True, weights = [],
                     inbound = [y, skip], outbound = [z]\<rparr>]))"

text \<open>
  The last layer is created without a name; Keras numbers the unnamed layers of a
  class, and the four transposed convolutions of the upsampling blocks come first.
  Keras refuses to create a convolution without filters, so \<^verbatim>\<open>output_channels = 0\<close>
  raises where the last layer is created.
\<close>

definition build_unet :: "(string \<Rightarrow> rat list) \<Rightarrow> hwc \<Rightarrow> nat \<Rightarrow> error + model" where
  "build_unet w0 input_shape output_channels =
     (case MobileNetV2 input_shape of Inl e \<Rightarrow> Inl e | Inr base_model \<Rightarrow>
     (let layer_names =
            [''block_1_expand_relu'',
             ''block_3_expand_relu'',
             ''block_6_expand_relu'',
             ''block_13_expand_relu'',
             ''block_16_project'']
      in case collect (map (get_layer base_model) layer_names) of Inl e \<Rightarrow> Inl e
         | Inr base_model_outputs \<Rightarrow>
     (let down_stack = \<lparr>name = ''pretrained_mobilenet'', config = Functional, trainable = True,
                         weights = w0 ''pretrained_mobilenet'',
                         inbound = [input_shape], outbound = base_model_outputs\<rparr>;
          down_stack = down_stack\<lparr>trainable := False\<rparr>;
          up_stack =
            [upsample 512 3 ''upsample_4x4_to_8x8'',
             upsample 256 3 ''upsample_8x8_to_16x16'',
             upsample 128 3 ''upsample_16x16_to_32x32'',
             upsample 64 3 ''upsample_32x32_to_64x64''];
          inputs = \<lparr>name = ''input_image'', config = InputLayer, trainable = True, weights = [],
                     inbound = [], outbound = [input_shape]\<rparr>;
          skips = outbound down_stack;
          x = last skips;
          skips = rev (butlast skips)
      in case upsampling w0 0 (zip up_stack skips) (x, []) of Inl e \<Rightarrow> Inl e
         | Inr (x, called) \<Rightarrow>
     if output_channels = 0 then Inl ValueError
     else
     (let last_conv = Conv2DTranspose output_channels 3 2 Same;
          y = compute_output_shape last_conv x;
          last_layer = \<lparr>name = ''conv2d_transpose_4'', config = last_conv, trainable = True,
                         weights = w0 ''conv2d_transpose_4'',
                         inbound = [x], outbound = [y]\<rparr>
      in Inr \<lparr>inputs = input_shape, outputs = y,
               layers = [inputs, down_stack] @ called @ [last_layer]\<rparr>))))"

subsection \<open>The encoder of the notebook\<close>

text \<open>
  The notebook builds the same encoder at top level, for \<^verbatim>\<open>INPUT_SHAPE\<close>.
\<close>

definition INPUT_SHAPE :: hwc where
  "INPUT_SHAPE = (128, 128, 3)"

definition OUTPUT_CHANNELS :: nat where
  "OUTPUT_CHANNELS = 3"

definition base_model :: "error + layer_table" where
  "base_model = MobileNetV2 INPUT_SHAPE"

definition layer_names :: "string list" where
  "layer_names =
     [''block_1_expand_relu'',
      ''block_3_expand_relu'',
      ''block_6_expand_relu'',
      ''block_13_expand_relu'',
      ''block_16_project'']"

definition base_model_outputs :: "error + hwc list" where
  "base_model_outputs =
     (case base_model of Inl e \<Rightarrow> Inl e
      | Inr base \<Rightarrow> collect (map (get_layer base) layer_names))"

definition down_stack :: "(string \<Rightarrow> rat list) \<Rightarrow> error + klayer" where
  "down_stack w0 =
     (case base_model_outputs of Inl e \<Rightarrow> Inl e | Inr outs \<Rightarrow>
        (let encoder = \<lparr>name = ''pretrained_mobilenet'', config = Functional,
                         trainable = True, weights = w0 ''pretrained_mobilenet'',
                         inbound = [INPUT_SHAPE], outbound = outs\<rparr>
         in Inr (encoder\<lparr>trainable := False\<rparr>)))"

section \<open>Training\<close>

text \<open>
  \<^verbatim>\<open>model.fit\<close> is the library's training loop. It changes the model in place and it may
  raise; the model is then as the completed steps left it. So \<open>fit\<close> returns the error
  raised, if any, together with the model.

  A training step lets the optimizer replace the weights of the layers that are
  trainable and leaves the weights of the others as they are. What the optimizer
  computes from the batch of step \<open>k\<close> and the current model is the argument \<open>update\<close>: new
  weights for the layers, or the error the library raises on that batch (a batch whose
  images do not have the input shape of the model, a label that is not below the number
  of output channels).
\<close>

definition train_step :: "(model \<Rightarrow> error + (klayer \<Rightarrow> rat list)) \<Rightarrow> model \<Rightarrow> error + model" where
  "train_step update m =
     (case update m of
        Inl e \<Rightarrow> Inl e
      | Inr new_weights \<Rightarrow>
          Inr (m\<lparr>layers := map (\<lambda>l. if trainable l then l\<lparr>weights := new_weights l\<rparr> else l)
                               (layers m)\<rparr>))"

text \<open>The steps of one epoch, the first of which has the number \<open>first\<close>.\<close>

fun run_steps ::
  "(nat \<Rightarrow> model \<Rightarrow> error + (klayer \<Rightarrow> rat list)) \<Rightarrow> nat \<Rightarrow> nat \<Rightarrow> model
     \<Rightarrow> error option \<times> model" where
  "run_steps update first 0 m = (None, m)"
| "run_steps update first (Suc n) m =
     (case train_step (update first) m of
        Inl e \<Rightarrow> (Some e, m)
      | Inr m' \<Rightarrow> run_steps update (Suc first) n m')"

text \<open>
  The epochs. After the steps of an epoch the model is evaluated on the validation
  data, which the library refuses when \<open>validation_steps\<close> is zero; what else the
  evaluation after epoch \<open>k\<close> may raise is the argument \<open>validation\<close>.
\<close>

fun run_epochs ::
  "(nat \<Rightarrow> model \<Rightarrow> error + (klayer \<Rightarrow> rat list)) \<Rightarrow> (nat \<Rightarrow> model \<Rightarrow> error option)
     \<Rightarrow> nat \<Rightarrow> int \<Rightarrow> nat \<Rightarrow> nat \<Rightarrow> model \<Rightarrow> error option \<times> model" where
  "run_epochs update validation steps validation_steps epoch 0 m = (None, m)"
| "run_epochs update validation steps validation_steps epoch (Suc remaining) m =
     (case run_steps update (epoch * steps) steps m of
        (Some e, m') \<Rightarrow> (Some e, m')
      | (None, m') \<Rightarrow>
          if validation_steps = 0 then (Some ValueError, m')
          else (case validation epoch m' of
                  Some e \<Rightarrow> (Some e, m')
                | None \<Rightarrow>
                    run_epochs update validation steps validation_steps (Suc epoch) remaining m'))"

text \<open>The library refuses \<open>steps_per_epoch = 0\<close> before the first epoch.\<close>

definition fit ::
  "(nat \<Rightarrow> model \<Rightarrow> error + (klayer \<Rightarrow> rat list)) \<Rightarrow> (nat \<Rightarrow> model \<Rightarrow> error option)
     \<Rightarrow> int \<Rightarrow> int \<Rightarrow> int \<Rightarrow> model \<Rightarrow> error option \<times> model" where
  "fit update validation epochs steps_per_epoch validation_steps m =
     (if steps_per_epoch = 0 then (Some ValueError, m)
      else run_epochs update validation (nat steps_per_epoch) validation_steps 0 (nat epochs) m)"

text \<open>
  What \<^verbatim>\<open>train_evaluate\<close> reads from outside: the dataset catalogue, which answers
  \<^verbatim>\<open>tfds.load\<close> with the sizes of the splits or an error; the initial weights; what the
  optimizer does on the batches of the dataset and what the evaluation raises; and the
  error, if any, of writing a model to a directory. Saved models are a map from directory
  paths to models.
\<close>

record dataset_info =
  train_examples :: nat
  test_examples :: nat

record environment =
  tfds_load :: "string \<Rightarrow> string \<Rightarrow> error + dataset_info"
  initial_weights :: "string \<Rightarrow> rat list"
  optimizer_update :: "nat \<Rightarrow> model \<Rightarrow> error + (klayer \<Rightarrow> rat list)"
  validation :: "nat \<Rightarrow> model \<Rightarrow> error option"
  save_error :: "string \<Rightarrow> model \<Rightarrow> error option"

record arguments =
  batch_size :: int
  tf_dataset :: string
  data_dir :: string
  input_shape :: hwc
  output_channels :: nat
  epochs :: int
  output_dir :: "string option"

text \<open>The default values of the parameters of \<^verbatim>\<open>train_evaluate\<close>.\<close>

definition default_arguments :: arguments where
  "default_arguments =
     \<lparr>batch_size = 64,
      tf_dataset = ''oxford_iiit_pet'',
      data_dir = ''gs://asl-public/data/tensorflow_datasets'',
      input_shape = (128, 128, 3),
      output_channels = 3,
      epochs = 10,
      output_dir = None\<rparr>"

text \<open>
  \<^verbatim>\<open>train_evaluate\<close> returns the error it raised, if any, and the saved models.
  \<^verbatim>\<open>create_train_test_datasets\<close> batches both splits, which the library refuses for a
  batch size that is not positive; the datasets then only feed \<^verbatim>\<open>fit\<close>. An error of
  \<^verbatim>\<open>build_unet\<close> or of \<^verbatim>\<open>fit\<close> ends the run before anything is saved. The test
  \<^verbatim>\<open>if output_dir:\<close> fails for \<^verbatim>\<open>None\<close> and for the empty string.
\<close>

definition train_evaluate ::
  "environment \<Rightarrow> (string \<rightharpoonup> model) \<Rightarrow> arguments \<Rightarrow> error option \<times> (string \<rightharpoonup> model)" where
  "train_evaluate env saved args =
     (case tfds_load env (tf_dataset args) (data_dir args) of
        Inl e \<Rightarrow> (Some e, saved)
      | Inr info \<Rightarrow>
          if batch_size args \<le> 0 then (Some InvalidArgumentError, saved)
          else
            (let steps_per_epoch = int (train_examples info) div batch_size args;
                 validation_steps = int (test_examples info) div batch_size args
             in case build_unet (initial_weights env) (input_shape args) (output_channels args) of
                  Inl e \<Rightarrow> (Some e, saved)
                | Inr model \<Rightarrow>
                    (case fit (optimizer_update env) (validation env) (epochs args)
                            steps_per_epoch validation_steps model of
                       (Some e, model) \<Rightarrow> (Some e, saved)
                     | (None, model) \<Rightarrow>
                         (case output_dir args of
                            None \<Rightarrow> (None, saved)
                          | Some dir \<Rightarrow>
                              if dir \<noteq> []
                              then (case save_error env dir model of
                                      Some e \<Rightarrow> (Some e, saved)
                                    | None \<Rightarrow> (None, saved(dir \<mapsto> model)))
                              else (None, saved)))))"

section \<open>Notions used in the statements\<close>

text \<open>Height and width of an image or of a batch of images.\<close>

definition spatial_dims :: "'a tensor \<Rightarrow> (nat \<times> nat) option" where
  "spatial_dims t =
     (case shape t of [h, w, c] \<Rightarrow> Some (h, w) | [n, h, w, c] \<Rightarrow> Some (h, w) | _ \<Rightarrow> None)"

text \<open>The tensors \<^verbatim>\<open>tf.image.resize\<close> accepts, and the records whose two features it accepts.\<close>

definition resizable :: "'a tensor \<Rightarrow> bool" where
  "resizable t =
     (case shape t of
        [h, w, c] \<Rightarrow> 0 < h \<and> 0 < w \<and> 0 < c
      | [n, h, w, c] \<Rightarrow> 0 < h \<and> 0 < w \<and> 0 < c
      | _ \<Rightarrow> False)"

definition resizable_record :: "features \<Rightarrow> bool" where
  "resizable_record data =
     (case data ''image'' of None \<Rightarrow> False
      | Some img \<Rightarrow>
          resizable img \<and>
          (case data ''segmentation_mask'' of None \<Rightarrow> False | Some msk \<Rightarrow> resizable msk))"

section \<open>Inputs for evaluation\<close>

text \<open>A record with a single white pixel, and one whose mask has two classes side by side.\<close>

definition white_record :: features where
  "white_record =
     [''image'' \<mapsto> \<lparr>dtype = UInt8, shape = [1, 1, 3], elem = (\<lambda>idx. 255)\<rparr>,
      ''segmentation_mask'' \<mapsto> \<lparr>dtype = UInt8, shape = [1, 1, 1], elem = (\<lambda>idx. 1)\<rparr>]"

definition border_record :: features where
  "border_record =
     [''image'' \<mapsto> \<lparr>dtype = UInt8, shape = [1, 2, 3], elem = (\<lambda>idx. 0)\<rparr>,
      ''segmentation_mask'' \<mapsto>
         \<lparr>dtype = UInt8, shape = [1, 2, 1], elem = (\<lambda>idx. if idx ! 1 = 0 then 1 else 2)\<rparr>]"

text \<open>Logits for a batch of two images of one row and two pixels, with three classes.\<close>

definition two_pixel_logits :: "rat tensor" where
  "two_pixel_logits =
     \<lparr>dtype = Float32, shape = [2, 1, 2, 3],
      elem = (\<lambda>idx. if idx = [0, 0, 0, 1] then 5 else if idx = [0, 0, 1, 2] then 7
                     else if hd idx = 1 then 9 else 0)\<rparr>"

text \<open>
  The layers of the pretrained network for inputs of 128 by 128 pixels, as the summary of
  the model lists them.
\<close>

definition mobilenet_v2_128 :: layer_table where
  "mobilenet_v2_128 =
     [(''input_1'', 128, 128, 3), (''Conv1'', 64, 64, 32), (''bn_Conv1'', 64, 64, 32),
      (''Conv1_relu'', 64, 64, 32), (''expanded_conv_depthwise'', 64, 64, 32),
      (''expanded_conv_depthwise_BN'', 64, 64, 32),
      (''expanded_conv_depthwise_relu'', 64, 64, 32),
      (''expanded_conv_project'', 64, 64, 16),
      (''expanded_conv_project_BN'', 64, 64, 16), (''block_1_expand'', 64, 64, 96),
      (''block_1_expand_BN'', 64, 64, 96), (''block_1_expand_relu'', 64, 64, 96),
      (''block_1_pad'', 65, 65, 96), (''block_1_depthwise'', 32, 32, 96),
      (''block_1_depthwise_BN'', 32, 32, 96), (''block_1_depthwise_relu'', 32, 32, 96),
      (''block_1_project'', 32, 32, 24), (''block_1_project_BN'', 32, 32, 24),
      (''block_2_expand'', 32, 32, 144), (''block_2_expand_BN'', 32, 32, 144),
      (''block_2_expand_relu'', 32, 32, 144), (''block_2_depthwise'', 32, 32, 144),
      (''block_2_depthwise_BN'', 32, 32, 144), (''block_2_depthwise_relu'', 32, 32, 144),
      (''block_2_project'', 32, 32, 24), (''block_2_project_BN'', 32, 32, 24),
      (''block_2_add'', 32, 32, 24), (''block_3_expand'', 32, 32, 144),
      (''block_3_expand_BN'', 32, 32, 144), (''block_3_expand_relu'', 32, 32, 144),
      (''block_3_pad'', 33, 33, 144), (''block_3_depthwise'', 16, 16, 144),
      (''block_3_depthwise_BN'', 16, 16, 144), (''block_3_depthwise_relu'', 16, 16, 144),
      (''block_3_project'', 16, 16, 32), (''block_3_project_BN'', 16, 16, 32),
      (''block_4_expand'', 16, 16, 192), (''block_4_expand_BN'', 16, 16, 192),
      (''block_4_expand_relu'', 16, 16, 192), (''block_4_depthwise'', 16, 16, 192),
      (''block_4_depthwise_BN'', 16, 16, 192), (''block_4_depthwise_relu'', 16, 16, 192),
      (''block_4_project'', 16, 16, 32), (''block_4_project_BN'', 16, 16, 32),
      (''block_4_add'', 16, 16, 32), (''block_5_expand'', 16, 16, 192),
      (''block_5_expand_BN'', 16, 16, 192), (''block_5_expand_relu'', 16, 16, 192),
      (''block_5_depthwise'', 16, 16, 192), (''block_5_depthwise_BN'', 16, 16, 192),
      (''block_5_depthwise_relu'', 16, 16, 192), (''block_5_project'', 16, 16, 32),
      (''block_5_project_BN'', 16, 16, 32), (''block_5_add'', 16, 16, 32),
      (''block_6_expand'', 16, 16, 192), (''block_6_expand_BN'', 16, 16, 192),
      (''block_6_expand_relu'', 16, 16, 192), (''block_6_pad'', 17, 17, 192),
      (''block_6_depthwise'', 8, 8, 192), (''block_6_depthwise_BN'', 8, 8, 192),
      (''block_6_depthwise_relu'', 8, 8, 192), (''block_6_project'', 8, 8, 64),
      (''block_6_project_BN'', 8, 8, 64), (''block_7_expand'', 8, 8, 384),
      (''block_7_expand_BN'', 8, 8, 384), (''block_7_expand_relu'', 8, 8, 384),
      (''block_7_depthwise'', 8, 8, 384), (''block_7_depthwise_BN'', 8, 8, 384),
      (''block_7_depthwise_relu'', 8, 8, 384), (''block_7_project'', 8, 8, 64),
      (''block_7_project_BN'', 8, 8, 64), (''block_7_add'', 8, 8, 64),
      (''block_8_expand'', 8, 8, 384), (''block_8_expand_BN'', 8, 8, 384),
      (''block_8_expand_relu'', 8, 8, 384), (''block_8_depthwise'', 8, 8, 384),
      (''block_8_depthwise_BN'', 8, 8, 384), (''block_8_depthwise_relu'', 8, 8, 384),
      (''block_8_project'', 8, 8, 64), (''block_8_project_BN'', 8, 8, 64),
      (''block_8_add'', 8, 8, 64), (''block_9_expand'', 8, 8, 384),
      (''block_9_expand_BN'', 8, 8, 384), (''block_9_expand_relu'', 8, 8, 384),
      (''block_9_depthwise'', 8, 8, 384), (''block_9_depthwise_BN'', 8, 8, 384),
      (''block_9_depthwise_relu'', 8, 8, 384), (''block_9_project'', 8, 8, 64),
      (''block_9_project_BN'', 8, 8, 64), (''block_9_add'', 8, 8, 64),
      (''block_10_expand'', 8, 8, 384), (''block_10_expand_BN'', 8, 8, 384),
      (''block_10_expand_relu'', 8, 8, 384), (''block_10_depthwise'', 8, 8, 384),
      (''block_10_depthwise_BN'', 8, 8, 384), (''block_10_depthwise_relu'', 8, 8, 384),
      (''block_10_project'', 8, 8, 96), (''block_10_project_BN'', 8, 8, 96),
      (''block_11_expand'', 8, 8, 576), (''block_11_expand_BN'', 8, 8, 576),
      (''block_11_expand_relu'', 8, 8, 576), (''block_11_depthwise'', 8, 8, 576),
      (''block_11_depthwise_BN'', 8, 8, 576), (''block_11_depthwise_relu'', 8, 8, 576),
      (''block_11_project'', 8, 8, 96), (''block_11_project_BN'', 8, 8, 96),
      (''block_11_add'', 8, 8, 96), (''block_12_expand'', 8, 8, 576),
      (''block_12_expand_BN'', 8, 8, 576), (''block_12_expand_relu'', 8, 8, 576),
      (''block_12_depthwise'', 8, 8, 576), (''block_12_depthwise_BN'', 8, 8, 576),
      (''block_12_depthwise_relu'', 8, 8, 576), (''block_12_project'', 8, 8, 96),
      (''block_12_project_BN'', 8, 8, 96), (''block_12_add'', 8, 8, 96),
      (''block_13_expand'', 8, 8, 576), (''block_13_expand_BN'', 8, 8, 576),
      (''block_13_expand_relu'', 8, 8, 576), (''block_13_pad'', 9, 9, 576),
      (''block_13_depthwise'', 4, 4, 576), (''block_13_depthwise_BN'', 4, 4, 576),
      (''block_13_depthwise_relu'', 4, 4, 576), (''block_13_project'', 4, 4, 160),
      (''block_13_project_BN'', 4, 4, 160), (''block_14_expand'', 4, 4, 960),
      (''block_14_expand_BN'', 4, 4, 960), (''block_14_expand_relu'', 4, 4, 960),
      (''block_14_depthwise'', 4, 4, 960), (''block_14_depthwise_BN'', 4, 4, 960),
      (''block_14_depthwise_relu'', 4, 4, 960), (''block_14_project'', 4, 4, 160),
      (''block_14_project_BN'', 4, 4, 160), (''block_14_add'', 4, 4, 160),
      (''block_15_expand'', 4, 4, 960), (''block_15_expand_BN'', 4, 4, 960),
      (''block_15_expand_relu'', 4, 4, 960), (''block_15_depthwise'', 4, 4, 960),
      (''block_15_depthwise_BN'', 4, 4, 960), (''block_15_depthwise_relu'', 4, 4, 960),
      (''block_15_project'', 4, 4, 160), (''block_15_project_BN'', 4, 4, 160),
      (''block_15_add'', 4, 4, 160), (''block_16_expand'', 4, 4, 960),
      (''block_16_expand_BN'', 4, 4, 960), (''block_16_expand_relu'', 4, 4, 960),
      (''block_16_depthwise'', 4, 4, 960), (''block_16_depthwise_BN'', 4, 4, 960),
      (''block_16_depthwise_relu'', 4, 4, 960), (''block_16_project'', 4, 4, 320),
      (''block_16_project_BN'', 4, 4, 320), (''Conv_1'', 4, 4, 1280),
      (''Conv_1_bn'', 4, 4, 1280), (''out_relu'', 4, 4, 1280)]"

text \<open>
  An environment with the catalogue entry of the pet dataset and no initial weights. The
  images of the dataset are preprocessed to 128 by 128 pixels and its labels go up to 2,
  so a training step raises on a model of another input shape and on a model with fewer
  than three output channels; otherwise the optimizer adds one weight to a layer.
  Evaluating and writing raise nothing.
\<close>

definition pets_environment :: environment where
  "pets_environment =
     \<lparr>tfds_load = (\<lambda>ds dir. if ds = ''oxford_iiit_pet''
                               then Inr \<lparr>train_examples = 3680, test_examples = 3669\<rparr>
                               else Inl ValueError),
      initial_weights = (\<lambda>layer_name. []),
      optimizer_update =
        (\<lambda>k m. if inputs m \<noteq> (128, 128, 3) then Inl ValueError
                else if snd (snd (outputs m)) < 3 then Inl InvalidArgumentError
                else Inr (\<lambda>l. 1 # weights l)),
      validation = (\<lambda>k m. None),
      save_error = (\<lambda>dir m. None)\<rparr>"

section \<open>Preprocessing: properties\<close>

text \<open>
  C9. The function \<^verbatim>\<open>read_and_preprocess\<close> of the notebook and the one written into
  \<^verbatim>\<open>pets_trainer/train.py\<close> compute the same function: on every record they raise the
  same error or return the same pair of image and mask.
\<close>

theorem read_and_preprocess_train_eq:
  "read_and_preprocess_train data = read_and_preprocess data"
  by (simp add: read_and_preprocess_train_def read_and_preprocess_def)

lemma resize_spatial_dims:
  "resize t (out_h, out_w) = Inr r \<Longrightarrow> spatial_dims r = Some (out_h, out_w)"
  unfolding resize_def spatial_dims_def
  by (simp split: list.splits if_splits) auto

lemma resize_resizable:
  "resizable t \<Longrightarrow> 0 < out_h \<Longrightarrow> 0 < out_w \<Longrightarrow> \<exists>r. resize t (out_h, out_w) = Inr r"
  unfolding resize_def resizable_def
  by (simp split: list.splits)

lemma spatial_dims_convert:
  "spatial_dims (convert_image_dtype_float32 t) = spatial_dims t"
  by (simp add: spatial_dims_def convert_image_dtype_float32_def)

lemma spatial_dims_sub: "spatial_dims (tensor_sub t k) = spatial_dims t"
  by (simp add: spatial_dims_def tensor_sub_def)

text \<open>
  C8. Whenever \<^verbatim>\<open>read_and_preprocess\<close> returns, the image and the mask both have height
  128 and width 128; and it returns on every record whose image and mask can be resized,
  that is, which has both features, each of rank 3 or 4 and without an empty dimension.
\<close>

theorem read_and_preprocess_spatial_dims:
  "case read_and_preprocess data of
     Inl e \<Rightarrow> \<not> resizable_record data
   | Inr (img, msk) \<Rightarrow>
       spatial_dims img = Some (128, 128) \<and> spatial_dims msk = Some (128, 128)"
proof (cases "read_and_preprocess data")
  case (Inl e)
  have "\<not> resizable_record data"
  proof
    assume "resizable_record data"
    then obtain raw_image raw_mask where
      "data ''image'' = Some raw_image" "resizable raw_image"
      "data ''segmentation_mask'' = Some raw_mask" "resizable raw_mask"
      by (auto simp: resizable_record_def split: option.splits)
    moreover obtain i m where "resize raw_image (128, 128) = Inr i" "resize raw_mask (128, 128) = Inr m"
      using resize_resizable[of raw_image 128 128] resize_resizable[of raw_mask 128 128]
        \<open>resizable raw_image\<close> \<open>resizable raw_mask\<close> by auto
    ultimately have "\<exists>r. read_and_preprocess data = Inr r"
      by (simp add: read_and_preprocess_def getitem_def Let_def)
    with Inl show False by simp
  qed
  with Inl show ?thesis by simp
next
  case (Inr r)
  obtain img msk where r: "r = (img, msk)" by (cases r)
  from Inr r obtain raw_image raw_mask i m where
    "resize raw_image (128, 128) = Inr i" "resize raw_mask (128, 128) = Inr m"
    "img = convert_image_dtype_float32 i" "msk = tensor_sub m 1"
    by (auto simp: read_and_preprocess_def Let_def split: sum.splits)
  then have "spatial_dims img = Some (128, 128)" "spatial_dims msk = Some (128, 128)"
    by (simp_all add: spatial_dims_convert spatial_dims_sub resize_spatial_dims)
  with Inr r show ?thesis by simp
qed

text \<open>
  C1, on the record with one white pixel. The resized image is already of type
  \<^verbatim>\<open>float32\<close>, so the conversion that should scale it to the unit interval returns it
  as it is: the image returned, by the notebook's function and by the training script's,
  has shape (128, 128, 3) and the value 255 at its first position, which is not in the
  interval from 0 to 1.
\<close>

theorem read_and_preprocess_white_pixel:
  "map_sum id (\<lambda>(img, msk). (dtype img, shape img, elem img [0, 0, 0]))
     (read_and_preprocess white_record) = Inr (Float32, [128, 128, 3], 255) \<and>
   map_sum id (\<lambda>(img, msk). (dtype img, shape img, elem img [0, 0, 0]))
     (read_and_preprocess_train white_record) = Inr (Float32, [128, 128, 3], 255)"
  by code_simp

text \<open>
  C2, on the record whose mask has the class 1 on the left and the class 2 on the right.
  The mask is resized by bilinear interpolation, which blends the two classes: the mask
  returned has the value 65/128 in the middle of its first row, which is not an integer.
\<close>

theorem read_and_preprocess_class_border:
  "map_sum id (\<lambda>(img, msk). (dtype msk, shape msk, elem msk [0, 64, 0]))
     (read_and_preprocess border_record) = Inr (Float32, [128, 128, 1], 65 / 128)"
  by code_simp

section \<open>Augmentation: properties\<close>

text \<open>
  C3. For every image, mask and draw \<open>u\<close>, \<^verbatim>\<open>augment\<close> returns the pair unchanged or the
  pair of the two mirrored tensors, never one mirrored and the other not; it raises only
  when mirroring was chosen and the library rejects one of the tensors. Mirroring is
  chosen exactly when \<open>u < AUGMENT_PROB\<close> in the notebook and when \<open>u > 1/2\<close> in the
  training script, and \<^verbatim>\<open>AUGMENT_PROB\<close> is 1/2: of the draws of the unit interval, the
  notebook mirrors on those below 1/2 and the training script on those above 1/2, in
  each case an interval of length 1/2.
\<close>

theorem augment_flips_both_or_neither:
  "(case augment u img msk of
      Inr (a, b) \<Rightarrow>
        (a = img \<and> b = msk \<and> \<not> u < AUGMENT_PROB) \<or>
        (flip_left_right img = Inr a \<and> flip_left_right msk = Inr b \<and> u < AUGMENT_PROB)
    | Inl e \<Rightarrow> u < AUGMENT_PROB \<and> (flip_left_right img = Inl e \<or> flip_left_right msk = Inl e)) \<and>
   (case augment_train u img msk of
      Inr (a, b) \<Rightarrow>
        (a = img \<and> b = msk \<and> \<not> 1 / 2 < u) \<or>
        (flip_left_right img = Inr a \<and> flip_left_right msk = Inr b \<and> 1 / 2 < u)
    | Inl e \<Rightarrow> 1 / 2 < u \<and> (flip_left_right img = Inl e \<or> flip_left_right msk = Inl e)) \<and>
   AUGMENT_PROB = 1 / 2 \<and>
   {v. 0 \<le> v \<and> v < 1 \<and> v < AUGMENT_PROB} = {0..<1 / 2} \<and>
   {v::rat. 0 \<le> v \<and> v < 1 \<and> 1 / 2 < v} = {1 / 2<..<1}"
proof -
  have "{v. 0 \<le> v \<and> v < 1 \<and> v < AUGMENT_PROB} = {0..<1 / 2}"
    by (auto simp: AUGMENT_PROB_def)
  moreover have "{v::rat. 0 \<le> v \<and> v < 1 \<and> 1 / 2 < v} = {1 / 2<..<1}"
    by auto
  ultimately show ?thesis
    by (auto simp: augment_def augment_train_def both_def AUGMENT_PROB_def split: sum.splits)
qed

section \<open>Predicted masks: properties\<close>

lemma argmax_upto_less: "argmax_upto f k \<le> k"
  by (induction k) (auto simp: Let_def le_Suc_eq)

lemma argmax_upto_max: "j \<le> k \<Longrightarrow> f j \<le> f (argmax_upto f k)"
proof (induction k)
  case 0
  then show ?case by simp
next
  case (Suc k)
  show ?case
  proof (cases "j = Suc k")
    case True
    then show ?thesis by (simp add: Let_def)
  next
    case False
    with Suc.prems have "j \<le> k" by simp
    then have "f j \<le> f (argmax_upto f k)" by (rule Suc.IH)
    then show ?thesis by (auto simp: Let_def)
  qed
qed

lemma argmax_upto_first: "j < argmax_upto f k \<Longrightarrow> f j < f (argmax_upto f k)"
proof (induction k)
  case 0
  then show ?case by simp
next
  case (Suc k)
  show ?case
  proof (cases "f (argmax_upto f k) < f (Suc k)")
    case True
    have "j \<le> k" using Suc.prems True argmax_upto_less[of f "Suc k"] by (simp add: Let_def)
    then have "f j \<le> f (argmax_upto f k)" by (rule argmax_upto_max)
    with True show ?thesis by (simp add: Let_def)
  next
    case False
    with Suc show ?thesis by (simp add: Let_def)
  qed
qed

lemma argmax_upto_cong:
  "(\<And>j. j \<le> k \<Longrightarrow> f j = g j) \<Longrightarrow> argmax_upto f k = argmax_upto g k"
proof (induction k)
  case 0
  show ?case by simp
next
  case (Suc k)
  then have eq: "argmax_upto f k = argmax_upto g k" by simp
  have "argmax_upto g k \<le> Suc k" using argmax_upto_less[of g k] by simp
  then have "f (argmax_upto g k) = g (argmax_upto g k)" by (rule Suc.prems)
  moreover have "f (Suc k) = g (Suc k)" by (rule Suc.prems) simp
  ultimately show ?case using eq by (simp add: Let_def)
qed

lemma create_mask_value:
  assumes "shape p = [n, h, w, c]" "1 \<le> n" "1 \<le> c"
  shows "create_mask p = Inr \<lparr>dtype = Int64, shape = [h, w, 1],
           elem = (\<lambda>idx. argmax_upto (\<lambda>k. elem p (butlast (0 # idx) @ [k])) (c - 1))\<rparr>"
  using assms by (simp add: create_mask_def argmax_def newaxis_last_def first_item_def Let_def)

text \<open>
  C10, for at least one class. For a prediction of shape [N, H, W, C] with \<open>N \<ge> 1\<close> and
  \<open>C \<ge> 1\<close>, \<^verbatim>\<open>create_mask\<close> returns a tensor of shape [H, W, 1]. Its value at a pixel is
  the index of the largest of the \<open>C\<close> values of the first batch element at that pixel, a
  number below \<open>C\<close>, and the first such index. Any prediction of the same shape that
  agrees on the first batch element gives the same mask.
\<close>

theorem create_mask_first_batch_argmax:
  assumes "shape p = [n, h, w, c]" "1 \<le> n" "1 \<le> c"
  shows "\<exists>m. create_mask p = Inr m \<and> shape m = [h, w, 1] \<and>
           (\<forall>y x. y < h \<longrightarrow> x < w \<longrightarrow>
              elem m [y, x, 0] < c \<and>
              (\<forall>k < c. elem p [0, y, x, k] \<le> elem p [0, y, x, elem m [y, x, 0]]) \<and>
              (\<forall>k < elem m [y, x, 0]. elem p [0, y, x, k] < elem p [0, y, x, elem m [y, x, 0]])) \<and>
           (\<forall>q. shape q = shape p \<longrightarrow>
              (\<forall>y x k. y < h \<longrightarrow> x < w \<longrightarrow> k < c \<longrightarrow> elem q [0, y, x, k] = elem p [0, y, x, k]) \<longrightarrow>
              (\<exists>m'. create_mask q = Inr m' \<and> shape m' = [h, w, 1] \<and>
                 (\<forall>y x. y < h \<longrightarrow> x < w \<longrightarrow> elem m' [y, x, 0] = elem m [y, x, 0])))"
proof -
  let ?m = "\<lparr>dtype = Int64, shape = [h, w, 1],
           elem = (\<lambda>idx. argmax_upto (\<lambda>k. elem p (butlast (0 # idx) @ [k])) (c - 1))\<rparr>"
  have val: "create_mask p = Inr ?m" using assms by (rule create_mask_value)
  have at: "elem ?m [y, x, 0] = argmax_upto (\<lambda>k. elem p [0, y, x, k]) (c - 1)" for y x
    by simp
  have bound: "elem ?m [y, x, 0] < c" for y x
    using argmax_upto_less[of "\<lambda>k. elem p [0, y, x, k]" "c - 1"] assms(3) unfolding at by simp
  have best: "elem p [0, y, x, k] \<le> elem p [0, y, x, elem ?m [y, x, 0]]" if "k < c" for y x k
    using argmax_upto_max[of k "c - 1" "\<lambda>k. elem p [0, y, x, k]"] that unfolding at by simp
  have first: "elem p [0, y, x, k] < elem p [0, y, x, elem ?m [y, x, 0]]"
    if "k < elem ?m [y, x, 0]" for y x k
    using argmax_upto_first[of k "\<lambda>k. elem p [0, y, x, k]" "c - 1"] that unfolding at by simp
  have indep: "\<exists>m'. create_mask q = Inr m' \<and> shape m' = [h, w, 1] \<and>
                 (\<forall>y x. y < h \<longrightarrow> x < w \<longrightarrow> elem m' [y, x, 0] = elem ?m [y, x, 0])"
    if sq: "shape q = shape p"
      and eq: "\<forall>y x k. y < h \<longrightarrow> x < w \<longrightarrow> k < c \<longrightarrow> elem q [0, y, x, k] = elem p [0, y, x, k]"
    for q
  proof -
    let ?m' = "\<lparr>dtype = Int64, shape = [h, w, 1],
           elem = (\<lambda>idx. argmax_upto (\<lambda>k. elem q (butlast (0 # idx) @ [k])) (c - 1))\<rparr>"
    have "shape q = [n, h, w, c]" using sq assms(1) by simp
    then have valq: "create_mask q = Inr ?m'" using assms(2,3) by (rule create_mask_value)
    have "elem ?m' [y, x, 0] = elem ?m [y, x, 0]" if "y < h" "x < w" for y x
    proof -
      have "argmax_upto (\<lambda>k. elem q [0, y, x, k]) (c - 1) = argmax_upto (\<lambda>k. elem p [0, y, x, k]) (c - 1)"
      proof (rule argmax_upto_cong)
        fix j assume "j \<le> c - 1"
        then have "j < c" using assms(3) by simp
        then show "elem q [0, y, x, j] = elem p [0, y, x, j]" using eq that by simp
      qed
      then show ?thesis by simp
    qed
    with valq show ?thesis by simp
  qed
  have vals: "\<forall>y x. y < h \<longrightarrow> x < w \<longrightarrow>
              elem ?m [y, x, 0] < c \<and>
              (\<forall>k < c. elem p [0, y, x, k] \<le> elem p [0, y, x, elem ?m [y, x, 0]]) \<and>
              (\<forall>k < elem ?m [y, x, 0]. elem p [0, y, x, k] < elem p [0, y, x, elem ?m [y, x, 0]])"
    using bound best first by blast
  have others: "\<forall>q. shape q = shape p \<longrightarrow>
              (\<forall>y x k. y < h \<longrightarrow> x < w \<longrightarrow> k < c \<longrightarrow> elem q [0, y, x, k] = elem p [0, y, x, k]) \<longrightarrow>
              (\<exists>m'. create_mask q = Inr m' \<and> shape m' = [h, w, 1] \<and>
                 (\<forall>y x. y < h \<longrightarrow> x < w \<longrightarrow> elem m' [y, x, 0] = elem ?m [y, x, 0]))"
    using indep by blast
  have "shape ?m = [h, w, 1]" by simp
  with val vals others show ?thesis by blast
qed

theorem create_mask_first_batch_argmax_witness:
  "shape two_pixel_logits = [2, 1, 2, 3] \<and>
   (\<exists>m. create_mask two_pixel_logits = Inr m \<and> shape m = [1, 2, 1] \<and>
        elem m [0, 0, 0] = 1 \<and> elem m [0, 1, 0] = 2)"
proof -
  have sh: "shape two_pixel_logits = [2, 1, 2, 3]" by (simp add: two_pixel_logits_def)
  from create_mask_first_batch_argmax[OF sh]
  obtain m where m: "create_mask two_pixel_logits = Inr m" "shape m = [1, 2, 1]" by auto
  have "create_mask two_pixel_logits =
     Inr \<lparr>dtype = Int64, shape = [1, 2, 1],
           elem = (\<lambda>idx. argmax_upto (\<lambda>k. elem two_pixel_logits (butlast (0 # idx) @ [k])) (3 - 1))\<rparr>"
    by (rule create_mask_value[OF sh]) simp_all
  with m have "elem m [0, 0, 0] = 1" "elem m [0, 1, 0] = 2"
    by (auto simp: two_pixel_logits_def numeral_2_eq_2 Let_def)
  with sh m show ?thesis by simp
qed

text \<open>Without classes, \<open>C = 0\<close>, the library has nothing to choose from and raises.\<close>

theorem create_mask_no_channels_counterexample:
  "create_mask \<lparr>dtype = Float32, shape = [1, 1, 1, 0], elem = (\<lambda>idx. 0)\<rparr> =
     Inl InvalidArgumentError"
  by (simp add: create_mask_def argmax_def)

section \<open>Evaluating the network at 128 by 128\<close>

lemma str_nat_digit: "n < 10 \<Longrightarrow> str_nat n = [''0123456789'' ! n]"
  by (subst str_nat.simps) simp

lemma MobileNetV2_128: "MobileNetV2 (128, 128, 3) = Inr mobilenet_v2_128"
  by code_simp

lemma map_of_step: "map_of ((n, s) # rest) k = (if n = k then Some s else map_of rest k)"
  by simp

lemma skips_128:
  "map (get_layer mobilenet_v2_128)
     [''block_1_expand_relu'', ''block_3_expand_relu'', ''block_6_expand_relu'',
      ''block_13_expand_relu'', ''block_16_project''] =
   [Inr (64, 64, 96), Inr (32, 32, 144), Inr (16, 16, 192), Inr (8, 8, 576), Inr (4, 4, 320)]"
  by (simp only: get_layer_def mobilenet_v2_128_def map_of_step list.map list.inject char.inject
       list.distinct if_True if_False option.case simp_thms refl cong: if_weak_cong)

lemma build_unet_128:
  "0 < n_out \<Longrightarrow>
   build_unet w0 (128, 128, 3) n_out =
   Inr \<lparr>inputs = (128, 128, 3), outputs = (128, 128, n_out),
     layers =
      [\<lparr>name = ''input_image'', config = InputLayer, trainable = True, weights = [],
        inbound = [], outbound = [(128, 128, 3)]\<rparr>,
       \<lparr>name = ''pretrained_mobilenet'', config = Functional, trainable = False,
        weights = w0 ''pretrained_mobilenet'', inbound = [(128, 128, 3)],
        outbound = [(64, 64, 96), (32, 32, 144), (16, 16, 192), (8, 8, 576), (4, 4, 320)]\<rparr>,
       \<lparr>name = ''upsample_4x4_to_8x8'',
        config = Sequential [Conv2DTranspose 512 3 2 Same, BatchNormalization, ReLU],
        trainable = True, weights = w0 ''upsample_4x4_to_8x8'',
        inbound = [(4, 4, 320)], outbound = [(8, 8, 512)]\<rparr>,
       \<lparr>name = ''expand_0'', config = Concatenate, trainable = True, weights = [],
        inbound = [(8, 8, 512), (8, 8, 576)], outbound = [(8, 8, 1088)]\<rparr>,
       \<lparr>name = ''upsample_8x8_to_16x16'',
        config = Sequential [Conv2DTranspose 256 3 2 Same, BatchNormalization, ReLU],
        trainable = True, weights = w0 ''upsample_8x8_to_16x16'',
        inbound = [(8, 8, 1088)], outbound = [(16, 16, 256)]\<rparr>,
       \<lparr>name = ''expand_1'', config = Concatenate, trainable = True, weights = [],
        inbound = [(16, 16, 256), (16, 16, 192)], outbound = [(16, 16, 448)]\<rparr>,
       \<lparr>name = ''upsample_16x16_to_32x32'',
        config = Sequential [Conv2DTranspose 128 3 2 Same, BatchNormalization, ReLU],
        trainable = True, weights = w0 ''upsample_16x16_to_32x32'',
        inbound = [(16, 16, 448)], outbound = [(32, 32, 128)]\<rparr>,
       \<lparr>name = ''expand_2'', config = Concatenate, trainable = True, weights = [],
        inbound = [(32, 32, 128), (32, 32, 144)], outbound = [(32, 32, 272)]\<rparr>,
       \<lparr>name = ''upsample_32x32_to_64x64'',
        config = Sequential [Conv2DTranspose 64 3 2 Same, BatchNormalization, ReLU],
        trainable = True, weights = w0 ''upsample_32x32_to_64x64'',
        inbound = [(32, 32, 272)], outbound = [(64, 64, 64)]\<rparr>,
       \<lparr>name = ''expand_3'', config = Concatenate, trainable = True, weights = [],
        inbound = [(64, 64, 64), (64, 64, 96)], outbound = [(64, 64, 160)]\<rparr>,
       \<lparr>name = ''conv2d_transpose_4'', config = Conv2DTranspose n_out 3 2 Same,
        trainable = True, weights = w0 ''conv2d_transpose_4'',
        inbound = [(64, 64, 160)], outbound = [(128, 128, n_out)]\<rparr>]\<rparr>"
  using skips_128
  by (simp add: build_unet_def MobileNetV2_128 upsample_def concatenate_def
      deconv_output_length_def str_nat_digit Let_def)

lemma build_unet_128_no_filters: "build_unet w0 (128, 128, 3) 0 = Inl ValueError"
  using skips_128
  by (simp add: build_unet_def MobileNetV2_128 upsample_def concatenate_def
      deconv_output_length_def str_nat_digit Let_def)


section \<open>Frozen layers\<close>

lemma train_step_frozen:
  assumes "train_step update m = Inr m'" "i < length (layers m)" "\<not> trainable (layers m ! i)"
  shows "length (layers m') = length (layers m) \<and> layers m' ! i = layers m ! i"
  using assms by (auto simp: train_step_def split: sum.splits)

lemma run_steps_frozen:
  "i < length (layers m) \<Longrightarrow> \<not> trainable (layers m ! i) \<Longrightarrow>
   length (layers (snd (run_steps update first n m))) = length (layers m) \<and>
   layers (snd (run_steps update first n m)) ! i = layers m ! i"
proof (induction n arbitrary: first m)
  case 0
  show ?case by simp
next
  case (Suc n)
  show ?case
  proof (cases "train_step (update first) m")
    case (Inl e)
    then show ?thesis by simp
  next
    case (Inr m')
    from train_step_frozen[OF Inr Suc.prems]
    have same: "length (layers m') = length (layers m)" "layers m' ! i = layers m ! i"
      by simp_all
    with Suc.prems have "i < length (layers m')" "\<not> trainable (layers m' ! i)" by simp_all
    from Suc.IH[OF this, of "Suc first"] same Inr show ?thesis by simp
  qed
qed

lemma run_epochs_frozen:
  "i < length (layers m) \<Longrightarrow> \<not> trainable (layers m ! i) \<Longrightarrow>
   length (layers (snd (run_epochs update val steps vsteps epoch remaining m))) =
     length (layers m) \<and>
   layers (snd (run_epochs update val steps vsteps epoch remaining m)) ! i = layers m ! i"
proof (induction remaining arbitrary: epoch m)
  case 0
  show ?case by simp
next
  case (Suc remaining)
  obtain err m' where steps: "run_steps update (epoch * steps) steps m = (err, m')"
    by (cases "run_steps update (epoch * steps) steps m")
  from run_steps_frozen[OF Suc.prems, of update "epoch * steps" steps] steps
  have same: "length (layers m') = length (layers m)" "layers m' ! i = layers m ! i"
    by simp_all
  with Suc.prems have m': "i < length (layers m')" "\<not> trainable (layers m' ! i)" by simp_all
  show ?case
  proof (cases "err = None \<and> vsteps \<noteq> 0 \<and> val epoch m' = None")
    case True
    with steps Suc.IH[OF m', of "Suc epoch"] same show ?thesis by simp
  next
    case False
    with steps same show ?thesis by (auto split: option.splits)
  qed
qed

lemma fit_frozen:
  "i < length (layers m) \<Longrightarrow> \<not> trainable (layers m ! i) \<Longrightarrow>
   layers (snd (fit update val e s v m)) ! i = layers m ! i"
  by (simp add: fit_def run_epochs_frozen)

lemma fit_one_step:
  "fit (\<lambda>k m. Inr (\<lambda>l. 1 # weights l)) (\<lambda>k m. None) 1 1 1 m =
     (None, m\<lparr>layers := map (\<lambda>l. if trainable l then l\<lparr>weights := 1 # weights l\<rparr> else l)
                            (layers m)\<rparr>)"
  by (simp add: fit_def train_step_def)

lemma upsampling_trainable:
  "upsampling w0 idx zs (x, called) = Inr (x', called') \<Longrightarrow>
   list_all trainable called \<Longrightarrow> list_all trainable called'"
proof (induction w0 idx zs "(x, called)" arbitrary: x called rule: upsampling.induct)
  case (1 w0 idx acc)
  then show ?case by simp
next
  case (2 w0 idx up_name up skip rest x called)
  from "2.prems"(1) obtain z where
    z: "concatenate [compute_output_shape up x, skip] = Inr z"
    by (auto simp: Let_def split: sum.splits)
  let ?called = "called @
      [\<lparr>name = up_name, config = up, trainable = True, weights = w0 up_name,
        inbound = [x], outbound = [compute_output_shape up x]\<rparr>,
       \<lparr>name = ''expand_'' @ str_nat idx, config = Concatenate, trainable = True, weights = [],
        inbound = [compute_output_shape up x, skip], outbound = [z]\<rparr>]"
  have run: "upsampling w0 (Suc idx) rest (z, ?called) = Inr (x', called')"
    using "2.prems"(1) z by (simp add: Let_def)
  have "list_all trainable ?called" using "2.prems"(2) by simp
  with "2.hyps"[OF refl refl z run] show ?case .
qed

lemma upsampling_trainable_from_empty:
  "upsampling w0 idx zs (x, []) = Inr (x', called') \<Longrightarrow> list_all trainable called'"
  by (erule upsampling_trainable) simp

lemma build_unet_layers:
  assumes "build_unet w0 shp n_out = Inr m"
  shows "\<exists>outs called x.
    list_all trainable called \<and>
    layers m =
      [\<lparr>name = ''input_image'', config = InputLayer, trainable = True, weights = [],
        inbound = [], outbound = [shp]\<rparr>,
       \<lparr>name = ''pretrained_mobilenet'', config = Functional, trainable = False,
        weights = w0 ''pretrained_mobilenet'', inbound = [shp], outbound = outs\<rparr>]
      @ called @
      [\<lparr>name = ''conv2d_transpose_4'', config = Conv2DTranspose n_out 3 2 Same, trainable = True,
        weights = w0 ''conv2d_transpose_4'', inbound = [x],
        outbound = [compute_output_shape (Conv2DTranspose n_out 3 2 Same) x]\<rparr>]"
  using assms
  by (auto simp: build_unet_def Let_def split: sum.splits prod.splits if_splits
      dest: upsampling_trainable_from_empty)


lemma base_model_128: "base_model = Inr mobilenet_v2_128"
  by (simp add: base_model_def INPUT_SHAPE_def MobileNetV2_128)

lemma base_model_outputs_128:
  "base_model_outputs =
     Inr [(64, 64, 96), (32, 32, 144), (16, 16, 192), (8, 8, 576), (4, 4, 320)]"
  using skips_128 by (simp add: base_model_outputs_def base_model_128 layer_names_def)

lemma down_stack_128:
  "down_stack w0 =
     Inr \<lparr>name = ''pretrained_mobilenet'', config = Functional, trainable = False,
          weights = w0 ''pretrained_mobilenet'', inbound = [(128, 128, 3)],
          outbound = [(64, 64, 96), (32, 32, 144), (16, 16, 192), (8, 8, 576), (4, 4, 320)]\<rparr>"
  by (simp add: down_stack_def base_model_outputs_128 INPUT_SHAPE_def)

text \<open>
  C4. The encoder is frozen: after construction \<^verbatim>\<open>down_stack\<close> is not trainable, in the
  notebook and in every model \<^verbatim>\<open>build_unet\<close> returns, where it is the layer at position
  1 and holds the pretrained weights. Fitting the model, for any optimizer, any number of
  epochs and any number of steps, whether \<^verbatim>\<open>fit\<close> completes or raises, leaves that layer
  as it was, so every weight of the encoder is unchanged. All later layers, the decoder,
  are trainable, and there is an optimizer under which one step of fitting changes the
  weights of each trainable layer.
\<close>

theorem encoder_weights_frozen:
  assumes "build_unet w0 shp n_out = Inr m"
  shows "map_sum id trainable (down_stack w0) = Inr False \<and>
         name (layers m ! 1) = ''pretrained_mobilenet'' \<and>
         \<not> trainable (layers m ! 1) \<and>
         weights (layers m ! 1) = w0 ''pretrained_mobilenet'' \<and>
         (\<forall>update val e s v. layers (snd (fit update val e s v m)) ! 1 = layers m ! 1) \<and>
         (\<forall>i. 2 \<le> i \<longrightarrow> i < length (layers m) \<longrightarrow> trainable (layers m ! i)) \<and>
         (\<exists>update val. \<forall>i. i < length (layers m) \<longrightarrow> trainable (layers m ! i) \<longrightarrow>
             weights (layers (snd (fit update val 1 1 1 m)) ! i) \<noteq> weights (layers m ! i))"
proof -
  from build_unet_layers[OF assms] obtain outs called x where
    called: "list_all trainable called" and
    ls: "layers m =
      [\<lparr>name = ''input_image'', config = InputLayer, trainable = True, weights = [],
        inbound = [], outbound = [shp]\<rparr>,
       \<lparr>name = ''pretrained_mobilenet'', config = Functional, trainable = False,
        weights = w0 ''pretrained_mobilenet'', inbound = [shp], outbound = outs\<rparr>]
      @ called @
      [\<lparr>name = ''conv2d_transpose_4'', config = Conv2DTranspose n_out 3 2 Same, trainable = True,
        weights = w0 ''conv2d_transpose_4'', inbound = [x],
        outbound = [compute_output_shape (Conv2DTranspose n_out 3 2 Same) x]\<rparr>]"
    by blast
  have enc: "layers m ! 1 =
       \<lparr>name = ''pretrained_mobilenet'', config = Functional, trainable = False,
        weights = w0 ''pretrained_mobilenet'', inbound = [shp], outbound = outs\<rparr>"
    by (simp add: ls)
  have len: "1 < length (layers m)" by (simp add: ls)
  have frozen: "layers (snd (fit update val e s v m)) ! 1 = layers m ! 1" for update val e s v
  proof -
    have "\<not> trainable (layers m ! 1)" by (simp only: enc) simp
    with len show ?thesis by (rule fit_frozen)
  qed
  have decoder: "trainable (layers m ! i)" if "2 \<le> i" "i < length (layers m)" for i
  proof -
    define j where "j = i - 2"
    have j: "i = Suc (Suc j)" using that(1) by (simp add: j_def)
    have "list_all trainable (called @
      [\<lparr>name = ''conv2d_transpose_4'', config = Conv2DTranspose n_out 3 2 Same, trainable = True,
        weights = w0 ''conv2d_transpose_4'', inbound = [x],
        outbound = [compute_output_shape (Conv2DTranspose n_out 3 2 Same) x]\<rparr>])"
      using called by simp
    moreover have "j < length (called @
      [\<lparr>name = ''conv2d_transpose_4'', config = Conv2DTranspose n_out 3 2 Same, trainable = True,
        weights = w0 ''conv2d_transpose_4'', inbound = [x],
        outbound = [compute_output_shape (Conv2DTranspose n_out 3 2 Same) x]\<rparr>])"
      using that(2) j by (simp add: ls)
    ultimately show ?thesis
      unfolding ls j by (simp add: list_all_length del: list_all_append)
  qed
  have changes: "weights (layers (snd (fit (\<lambda>k m. Inr (\<lambda>l. 1 # weights l)) (\<lambda>k m. None) 1 1 1 m)) ! i)
      \<noteq> weights (layers m ! i)"
    if "i < length (layers m)" "trainable (layers m ! i)" for i
    using that by (simp add: fit_one_step)
  have "map_sum id trainable (down_stack w0) = Inr False"
    by (simp add: down_stack_128)
  moreover have "\<exists>update val. \<forall>i. i < length (layers m) \<longrightarrow> trainable (layers m ! i) \<longrightarrow>
             weights (layers (snd (fit update val 1 1 1 m)) ! i) \<noteq> weights (layers m ! i)"
    using changes by blast
  ultimately show ?thesis using enc frozen decoder by simp
qed

theorem encoder_weights_frozen_witness:
  "\<exists>m. build_unet (\<lambda>n. []) (128, 128, 3) 3 = Inr m \<and>
       name (layers m ! 1) = ''pretrained_mobilenet'' \<and> \<not> trainable (layers m ! 1) \<and>
       weights (layers m ! 1) = [] \<and>
       (\<forall>update val e s v. layers (snd (fit update val e s v m)) ! 1 = layers m ! 1)"
proof -
  obtain m where m: "build_unet (\<lambda>n. []) (128, 128, 3) 3 = Inr m"
    using build_unet_128[of 3 "\<lambda>n. []"] by simp
  from encoder_weights_frozen[OF m] m show ?thesis by blast
qed


text \<open>
  C5. The decoder of \<^verbatim>\<open>build_unet\<close>. For an input of shape (128, 128, 3) the model consists
  of the input, the encoder, four upsampling blocks and a last transposed convolution.
  Each block is a transposed convolution with stride 2 and padding \<^verbatim>\<open>same\<close> followed by
  batch normalisation and ReLU; its output has twice the height and width of its input and
  is concatenated with the skip output of that resolution, the skips being taken in
  reverse order: 8, 16, 32, 64. The last layer has \<^verbatim>\<open>OUTPUT_CHANNELS = 3\<close> filters and
  the model's output has shape (128, 128, 3). An upsampling block doubles the height and
  width of every input.
\<close>

theorem build_unet_decoder:
  "map_sum id (\<lambda>m. (inputs m, outputs m,
                     map (\<lambda>l. (name l, config l, inbound l, outbound l)) (layers m)))
     (build_unet w0 (128, 128, 3) OUTPUT_CHANNELS) =
   Inr ((128, 128, 3), (128, 128, 3),
      [(''input_image'', InputLayer, [], [(128, 128, 3)]),
       (''pretrained_mobilenet'', Functional, [(128, 128, 3)],
        [(64, 64, 96), (32, 32, 144), (16, 16, 192), (8, 8, 576), (4, 4, 320)]),
       (''upsample_4x4_to_8x8'',
        Sequential [Conv2DTranspose 512 3 2 Same, BatchNormalization, ReLU],
        [(4, 4, 320)], [(8, 8, 512)]),
       (''expand_0'', Concatenate, [(8, 8, 512), (8, 8, 576)], [(8, 8, 1088)]),
       (''upsample_8x8_to_16x16'',
        Sequential [Conv2DTranspose 256 3 2 Same, BatchNormalization, ReLU],
        [(8, 8, 1088)], [(16, 16, 256)]),
       (''expand_1'', Concatenate, [(16, 16, 256), (16, 16, 192)], [(16, 16, 448)]),
       (''upsample_16x16_to_32x32'',
        Sequential [Conv2DTranspose 128 3 2 Same, BatchNormalization, ReLU],
        [(16, 16, 448)], [(32, 32, 128)]),
       (''expand_2'', Concatenate, [(32, 32, 128), (32, 32, 144)], [(32, 32, 272)]),
       (''upsample_32x32_to_64x64'',
        Sequential [Conv2DTranspose 64 3 2 Same, BatchNormalization, ReLU],
        [(32, 32, 272)], [(64, 64, 64)]),
       (''expand_3'', Concatenate, [(64, 64, 64), (64, 64, 96)], [(64, 64, 160)]),
       (''conv2d_transpose_4'', Conv2DTranspose 3 3 2 Same,
        [(64, 64, 160)], [(128, 128, 3)])]) \<and>
   OUTPUT_CHANNELS = 3 \<and>
   compute_output_shape (snd (upsample filters ksize block_name)) (h, w, c) =
     (2 * h, 2 * w, filters)"
  by (simp add: build_unet_128 OUTPUT_CHANNELS_def upsample_def deconv_output_length_def)

text \<open>
  C6. For the input of 128 by 128 pixels the encoder has exactly five outputs, the
  activations of the layers \<^verbatim>\<open>block_1_expand_relu\<close>, \<^verbatim>\<open>block_3_expand_relu\<close>,
  \<^verbatim>\<open>block_6_expand_relu\<close>, \<^verbatim>\<open>block_13_expand_relu\<close> and \<^verbatim>\<open>block_16_project\<close> of the
  pretrained network, of heights and widths 64, 32, 16, 8 and 4 in this order, which is
  strictly decreasing; so in the notebook and so in \<^verbatim>\<open>build_unet\<close>, for every number
  of output channels with which \<^verbatim>\<open>build_unet\<close> returns a model, that is, every number
  but zero.
\<close>

theorem down_stack_skip_resolutions:
  "layer_names =
     [''block_1_expand_relu'', ''block_3_expand_relu'', ''block_6_expand_relu'',
      ''block_13_expand_relu'', ''block_16_project''] \<and>
   map_sum id (\<lambda>base. map (\<lambda>n. (n, get_layer base n)) layer_names) base_model =
     Inr [(''block_1_expand_relu'', Inr (64, 64, 96)),
          (''block_3_expand_relu'', Inr (32, 32, 144)),
          (''block_6_expand_relu'', Inr (16, 16, 192)),
          (''block_13_expand_relu'', Inr (8, 8, 576)),
          (''block_16_project'', Inr (4, 4, 320))] \<and>
   map_sum id (\<lambda>d. (name d, inbound d, outbound d)) (down_stack w0) =
     Inr (''pretrained_mobilenet'', [(128, 128, 3)],
          [(64, 64, 96), (32, 32, 144), (16, 16, 192), (8, 8, 576), (4, 4, 320)]) \<and>
   map_sum id (\<lambda>d. (length (outbound d), map (\<lambda>s. (fst s, fst (snd s))) (outbound d),
                     sorted_wrt (>) (map fst (outbound d))))
     (down_stack w0) =
     Inr (5, [(64, 64), (32, 32), (16, 16), (8, 8), (4, 4)], True) \<and>
   map_sum id (\<lambda>m. (name (layers m ! 1), inbound (layers m ! 1), outbound (layers m ! 1)))
     (build_unet w0 (128, 128, 3) n_out) =
     (if n_out = 0 then Inl ValueError
      else Inr (''pretrained_mobilenet'', [(128, 128, 3)],
                [(64, 64, 96), (32, 32, 144), (16, 16, 192), (8, 8, 576), (4, 4, 320)]))"
  using skips_128
  by (simp add: layer_names_def base_model_128 down_stack_128 build_unet_128
      build_unet_128_no_filters)

section \<open>Runs that complete\<close>

lemma train_step_io:
  "train_step update m = Inr m' \<Longrightarrow> inputs m' = inputs m \<and> outputs m' = outputs m"
  by (auto simp: train_step_def split: sum.splits)

lemma run_steps_completes:
  assumes "\<And>k m'. inputs m' = inputs m \<Longrightarrow> outputs m' = outputs m \<Longrightarrow> \<exists>w. update k m' = Inr w"
  shows "fst (run_steps update first n m) = None \<and>
         inputs (snd (run_steps update first n m)) = inputs m \<and>
         outputs (snd (run_steps update first n m)) = outputs m"
  using assms
proof (induction n arbitrary: first m)
  case 0
  show ?case by simp
next
  case (Suc n)
  from Suc.prems[of m first] obtain w where w: "update first m = Inr w" by auto
  then obtain m' where m': "train_step (update first) m = Inr m'"
    by (simp add: train_step_def)
  from train_step_io[OF m'] have io: "inputs m' = inputs m" "outputs m' = outputs m" by simp_all
  have "\<And>k m''. inputs m'' = inputs m' \<Longrightarrow> outputs m'' = outputs m' \<Longrightarrow> \<exists>w. update k m'' = Inr w"
    using Suc.prems io by simp
  from Suc.IH[of m' "Suc first", OF this] m' io show ?case by simp
qed

lemma run_epochs_completes:
  assumes "\<And>k m'. inputs m' = inputs m \<Longrightarrow> outputs m' = outputs m \<Longrightarrow> \<exists>w. update k m' = Inr w"
    and "\<And>k m'. val k m' = None" and "vsteps \<noteq> 0"
  shows "fst (run_epochs update val steps vsteps epoch remaining m) = None"
  using assms(1)
proof (induction remaining arbitrary: epoch m)
  case 0
  show ?case by simp
next
  case (Suc remaining)
  obtain err m' where steps: "run_steps update (epoch * steps) steps m = (err, m')"
    by (cases "run_steps update (epoch * steps) steps m")
  from run_steps_completes[of m update "epoch * steps" steps] Suc.prems steps
  have fin: "err = None" "inputs m' = inputs m" "outputs m' = outputs m" by auto
  have "\<And>k m''. inputs m'' = inputs m' \<Longrightarrow> outputs m'' = outputs m' \<Longrightarrow> \<exists>w. update k m'' = Inr w"
    using Suc.prems fin by simp
  from Suc.IH[of m' "Suc epoch", OF this] steps fin assms(2,3) show ?case by simp
qed

lemma fit_pets_completes:
  assumes "inputs m = (128, 128, 3)" "3 \<le> snd (snd (outputs m))" "s \<noteq> 0" "v \<noteq> 0"
  shows "fst (fit (optimizer_update pets_environment) (validation pets_environment) e s v m) = None"
proof -
  have "\<And>k m'. inputs m' = inputs m \<Longrightarrow> outputs m' = outputs m \<Longrightarrow>
          \<exists>w. optimizer_update pets_environment k m' = Inr w"
    using assms(1,2) by (simp add: pets_environment_def)
  moreover have "\<And>k m'. validation pets_environment k m' = None"
    by (simp add: pets_environment_def)
  ultimately show ?thesis
    using assms(3,4) by (simp add: fit_def run_epochs_completes)
qed

text \<open>Runs that raise: no training step, a model with too few channels, no filters.\<close>

lemma run_steps_raises:
  "0 < n \<Longrightarrow> update first m = Inl e \<Longrightarrow> run_steps update first n m = (Some e, m)"
  by (cases n) (simp_all add: train_step_def)

lemma fit_first_step_raises:
  assumes "0 < s" "0 < e" "update 0 m = Inl err"
  shows "fit update val e s v m = (Some err, m)"
proof -
  obtain r where r: "nat e = Suc r" using assms(2) by (cases "nat e") simp_all
  have "run_steps update 0 (nat s) m = (Some err, m)"
    using assms(1,3) by (simp add: run_steps_raises)
  then show ?thesis using assms(1) r by (simp add: fit_def)
qed

lemma train_evaluate_no_step_raises:
  "train_evaluate pets_environment Map.empty
     (default_arguments\<lparr>batch_size := 4000, output_dir := Some ''gs://bucket/pets/models/1''\<rparr>) =
   (Some ValueError, Map.empty)"
  by (simp add: train_evaluate_def pets_environment_def default_arguments_def build_unet_128
      fit_def)

lemma train_evaluate_two_channels_raises:
  "train_evaluate pets_environment Map.empty
     (default_arguments\<lparr>output_channels := 2, output_dir := Some ''gs://bucket/pets/models/1''\<rparr>) =
   (Some InvalidArgumentError, Map.empty)"
  by (simp add: train_evaluate_def pets_environment_def default_arguments_def build_unet_128
      fit_first_step_raises)

lemma train_evaluate_no_filters_raises:
  "train_evaluate pets_environment Map.empty
     (default_arguments\<lparr>output_channels := 0, output_dir := Some ''gs://bucket/pets/models/1''\<rparr>) =
   (Some ValueError, Map.empty)"
  by (simp add: train_evaluate_def pets_environment_def default_arguments_def
      build_unet_128_no_filters)

text \<open>
  C7, as the code has it. \<^verbatim>\<open>train_evaluate\<close> completes without an error exactly when the
  dataset loads, the batch size is positive, the model is built, \<^verbatim>\<open>fit\<close> completes on it
  and, where a model is to be written, writing it raises nothing. It then leaves the
  saved models as they were when \<^verbatim>\<open>output_dir\<close> is \<^verbatim>\<open>None\<close> or empty, and otherwise
  stores under \<^verbatim>\<open>output_dir\<close> the model as \<^verbatim>\<open>fit\<close> left it, and nothing else. A run that
  raises saves nothing.
\<close>

theorem train_evaluate_saves_fitted_model:
  "(train_evaluate env saved args = (None, saved') \<longleftrightarrow>
     (\<exists>info m fitted.
        tfds_load env (tf_dataset args) (data_dir args) = Inr info \<and>
        0 < batch_size args \<and>
        build_unet (initial_weights env) (input_shape args) (output_channels args) = Inr m \<and>
        fit (optimizer_update env) (validation env) (epochs args)
            (int (train_examples info) div batch_size args)
            (int (test_examples info) div batch_size args) m = (None, fitted) \<and>
        (case output_dir args of
           None \<Rightarrow> saved' = saved
         | Some dir \<Rightarrow>
             if dir \<noteq> []
             then save_error env dir fitted = None \<and> saved' = saved(dir \<mapsto> fitted)
             else saved' = saved))) \<and>
   (fst (train_evaluate env saved args) \<noteq> None \<longrightarrow>
      snd (train_evaluate env saved args) = saved)"
proof (intro conjI)
  show "fst (train_evaluate env saved args) \<noteq> None \<longrightarrow>
      snd (train_evaluate env saved args) = saved"
    by (auto simp: train_evaluate_def Let_def split: sum.splits option.splits prod.splits)
next
  show "train_evaluate env saved args = (None, saved') \<longleftrightarrow>
     (\<exists>info m fitted.
        tfds_load env (tf_dataset args) (data_dir args) = Inr info \<and>
        0 < batch_size args \<and>
        build_unet (initial_weights env) (input_shape args) (output_channels args) = Inr m \<and>
        fit (optimizer_update env) (validation env) (epochs args)
            (int (train_examples info) div batch_size args)
            (int (test_examples info) div batch_size args) m = (None, fitted) \<and>
        (case output_dir args of
           None \<Rightarrow> saved' = saved
         | Some dir \<Rightarrow>
             if dir \<noteq> []
             then save_error env dir fitted = None \<and> saved' = saved(dir \<mapsto> fitted)
             else saved' = saved))"
    by (auto simp: train_evaluate_def Let_def split: sum.splits option.splits prod.splits)
qed

theorem train_evaluate_saves_fitted_model_witness:
  "\<exists>m fitted.
     build_unet (\<lambda>n. []) (128, 128, 3) 3 = Inr m \<and>
     fit (optimizer_update pets_environment) (validation pets_environment) 10 57 57 m =
       (None, fitted) \<and>
     train_evaluate pets_environment Map.empty
       (default_arguments\<lparr>output_dir := Some ''gs://bucket/pets/models/1''\<rparr>) =
     (None, [''gs://bucket/pets/models/1'' \<mapsto> fitted])"
proof -
  obtain m where m: "build_unet (\<lambda>n. []) (128, 128, 3) 3 = Inr m"
    and io: "inputs m = (128, 128, 3)" "outputs m = (128, 128, 3)"
    using build_unet_128[of 3 "\<lambda>n. []"] by simp
  have "fst (fit (optimizer_update pets_environment) (validation pets_environment) 10 57 57 m) = None"
    using io by (intro fit_pets_completes) simp_all
  then obtain fitted where
    fitted: "fit (optimizer_update pets_environment) (validation pets_environment) 10 57 57 m =
       (None, fitted)"
    by (cases "fit (optimizer_update pets_environment) (validation pets_environment) 10 57 57 m")
       simp
  let ?args = "default_arguments\<lparr>output_dir := Some ''gs://bucket/pets/models/1''\<rparr>"
  have "\<exists>info m fitted'.
        tfds_load pets_environment (tf_dataset ?args) (data_dir ?args) = Inr info \<and>
        0 < batch_size ?args \<and>
        build_unet (initial_weights pets_environment) (input_shape ?args) (output_channels ?args)
          = Inr m \<and>
        fit (optimizer_update pets_environment) (validation pets_environment) (epochs ?args)
            (int (train_examples info) div batch_size ?args)
            (int (test_examples info) div batch_size ?args) m = (None, fitted') \<and>
        (case output_dir ?args of
           None \<Rightarrow> [''gs://bucket/pets/models/1'' \<mapsto> fitted] = Map.empty
         | Some dir \<Rightarrow>
             if dir \<noteq> []
             then save_error pets_environment dir fitted' = None \<and>
                  [''gs://bucket/pets/models/1'' \<mapsto> fitted] = Map.empty(dir \<mapsto> fitted')
             else [''gs://bucket/pets/models/1'' \<mapsto> fitted] = Map.empty)"
    apply (rule exI[of _ "\<lparr>train_examples = 3680, test_examples = 3669\<rparr>"])
    apply (rule exI[of _ m])
    apply (rule exI[of _ fitted])
    using m fitted
    apply (simp add: default_arguments_def)
    apply (simp add: pets_environment_def)
    done
  then have "train_evaluate pets_environment Map.empty ?args =
     (None, [''gs://bucket/pets/models/1'' \<mapsto> fitted])"
    using train_evaluate_saves_fitted_model[of pets_environment Map.empty ?args
        "[''gs://bucket/pets/models/1'' \<mapsto> fitted]"]
    by blast
  with m fitted show ?thesis by blast
qed

text \<open>
  With the default arguments, where \<^verbatim>\<open>output_dir\<close> is \<^verbatim>\<open>None\<close>, the run completes and
  nothing is saved.
\<close>

theorem train_evaluate_default_saves_nothing_counterexample:
  "train_evaluate pets_environment Map.empty default_arguments = (None, Map.empty)"
proof -
  let ?m = "build_unet (initial_weights pets_environment) (128, 128, 3) 3"
  obtain m where m: "?m = Inr m"
    and io: "inputs m = (128, 128, 3)" "outputs m = (128, 128, 3)"
    using build_unet_128[of 3 "initial_weights pets_environment"] by simp
  have "fst (fit (optimizer_update pets_environment) (validation pets_environment) 10 57 57 m) = None"
    using io by (intro fit_pets_completes) simp_all
  then obtain fitted where
    "fit (optimizer_update pets_environment) (validation pets_environment) 10 57 57 m =
       (None, fitted)"
    by (cases "fit (optimizer_update pets_environment) (validation pets_environment) 10 57 57 m")
       simp
  with m show ?thesis
    by (simp add: train_evaluate_def default_arguments_def)
       (simp add: pets_environment_def)
qed

end
